theory Spec2Isabelle
  imports Main
begin

section \<open>Python values\<close>

text \<open>
  A Python \<open>str\<close> is modelled by its UTF-8 bytes, as a \<^typ>\<open>string\<close>. The program only
  concatenates strings, compares them and looks them up as dictionary keys, and UTF-8
  encoding is injective and commutes with concatenation, so nothing is lost. Cyrillic
  text is written as explicit bytes.

  The value returned by \<open>response.json()\<close> is any JSON value: the program does not know
  its shape before \<open>check_response\<close> has looked at it, and never knows the shape of the
  elements of \<open>homeworks\<close>. A JSON object is a Python \<open>dict\<close> with \<open>str\<close> keys, kept here
  as an association list read with \<^const>\<open>map_of\<close>. The payload of a float is never
  inspected by the program.
\<close>

datatype json =
    JNull
  | JBool bool
  | JInt int
  | JFloat int int
  | JStr string
  | JList "json list"
  | JDict "(string \<times> json) list"

text \<open>
  Exceptions, by class, with the argument they were constructed with. \<open>OtherError\<close> stands
  for any further subclass of \<open>Exception\<close> raised by a library (a JSON decoding error, a
  transport error of the bot library); it carries its \<open>str()\<close> text.
\<close>

datatype exn =
    TypeError string
  | KeyError string
  | ValueError string
  | ConnectionError string
  | AttributeError string
  | OtherError string

fun type_name :: "json \<Rightarrow> string" where
  "type_name JNull = ''NoneType''"
| "type_name (JBool _) = ''bool''"
| "type_name (JInt _) = ''int''"
| "type_name (JFloat _ _) = ''float''"
| "type_name (JStr _) = ''str''"
| "type_name (JList _) = ''list''"
| "type_name (JDict _) = ''dict''"

text \<open>\<open>isinstance(v, int)\<close>: in Python \<open>bool\<close> is a subclass of \<open>int\<close>.\<close>

fun isinstance_int :: "json \<Rightarrow> bool" where
  "isinstance_int (JInt _) = True"
| "isinstance_int (JBool _) = True"
| "isinstance_int _ = False"



subsection \<open>Text of numbers, strings and exceptions\<close>

fun digits :: "nat \<Rightarrow> string" where
  "digits n =
     (if n < 10 then [char_of (48 + n)]
      else digits (n div 10) @ [char_of (48 + n mod 10)])"

declare digits.simps [simp del]

definition str_int :: "int \<Rightarrow> string" where
  "str_int i = (if i < 0 then CHR ''-'' # digits (nat (- i)) else digits (nat i))"

definition hex_digit :: "nat \<Rightarrow> char" where
  "hex_digit d = (if d < 10 then char_of (48 + d) else char_of (87 + d))"

text \<open>
  \<open>repr\<close> of a \<open>str\<close>: single quotes unless the text has a single quote and no double
  quote; the quote and the backslash are escaped, as are the control characters. Bytes
  from \<open>0x80\<close> on belong to non-ASCII characters and are kept.
\<close>

definition repr_char :: "char \<Rightarrow> char \<Rightarrow> string" where
  "repr_char quote ch =
     (if ch = quote \<or> ch = CHR 0x5C then [CHR 0x5C, ch]
      else if ch = CHR 0x09 then [CHR 0x5C, CHR ''t'']
      else if ch = CHR 0x0A then [CHR 0x5C, CHR ''n'']
      else if ch = CHR 0x0D then [CHR 0x5C, CHR ''r'']
      else if (of_char ch :: nat) < 32 \<or> ch = CHR 0x7F
        then [CHR 0x5C, CHR ''x'', hex_digit (of_char ch div 16), hex_digit (of_char ch mod 16)]
      else [ch])"

definition py_repr :: "string \<Rightarrow> string" where
  "py_repr s =
     (let quote = (if CHR 0x27 \<in> set s \<and> CHR 0x22 \<notin> set s then CHR 0x22 else CHR 0x27)
      in quote # concat (map (repr_char quote) s) @ [quote])"

text \<open>\<open>str(error)\<close>: the argument, except that a \<open>KeyError\<close> shows the \<open>repr\<close> of its key.\<close>

fun str_exn :: "exn \<Rightarrow> string" where
  "str_exn (KeyError m) = py_repr m"
| "str_exn (TypeError m) = m"
| "str_exn (ValueError m) = m"
| "str_exn (ConnectionError m) = m"
| "str_exn (AttributeError m) = m"
| "str_exn (OtherError m) = m"

text \<open>
  A replacement field \<open>{v}\<close> of an f-string: a \<open>str\<close> is inserted as it is. The text the
  interpreter gives any other value (\<open>None\<close>, numbers, lists, dicts) is the parameter
  \<open>fmt\<close>.
\<close>

definition format_value :: "(json \<Rightarrow> string) \<Rightarrow> json \<Rightarrow> string" where
  "format_value fmt v = (case v of JStr s \<Rightarrow> s | _ \<Rightarrow> fmt v)"

subsection \<open>Membership and lookup\<close>

fun is_substring :: "string \<Rightarrow> string \<Rightarrow> bool" where
  "is_substring k [] = (k = [])"
| "is_substring k (c # cs) = (take (length k) (c # cs) = k \<or> is_substring k cs)"

text \<open>
  \<open>k in v\<close> for a \<open>str\<close> \<open>k\<close>: a key test on a dict, a substring test on a \<open>str\<close>, an
  element test on a list, and a \<open>TypeError\<close> on the values that are no containers.
\<close>

definition py_in :: "string \<Rightarrow> json \<Rightarrow> exn + bool" where
  "py_in k v =
     (case v of
        JDict d \<Rightarrow> Inr (map_of d k \<noteq> None)
      | JStr s \<Rightarrow> Inr (is_substring k s)
      | JList xs \<Rightarrow> Inr (List.member xs (JStr k))
      | _ \<Rightarrow> Inl (TypeError (''argument of type '' @ [CHR 0x27] @ type_name v @ [CHR 0x27]
                               @ '' is not iterable'')))"

text \<open>\<open>v.get(k)\<close>: only a dict has the method; an absent key gives \<open>None\<close>.\<close>

definition py_get :: "json \<Rightarrow> string \<Rightarrow> exn + json" where
  "py_get v k =
     (case v of
        JDict d \<Rightarrow> Inr (case map_of d k of None \<Rightarrow> JNull | Some x \<Rightarrow> x)
      | _ \<Rightarrow> Inl (AttributeError ([CHR 0x27] @ type_name v @ [CHR 0x27]
                                    @ '' object has no attribute '' @ [CHR 0x27] @ ''get''
                                    @ [CHR 0x27])))"

section \<open>Constants of the module\<close>

definition RETRY_PERIOD :: nat where
  "RETRY_PERIOD = 600"

definition ENDPOINT :: string where
  "ENDPOINT = ''https://practicum.yandex.ru/api/user_api/homework_statuses/''"

text \<open>
  The three verdict texts, in code points:
  \<^item> \<open>approved\<close>: U+0420 0430 0431 043E 0442 0430, space, U+043F 0440 043E 0432 0435 0440
    0435 043D 0430, colon, space, U+0440 0435 0432 044C 044E 0435 0440 0443, space,
    U+0432 0441 0451, space, U+043F 043E 043D 0440 0430 0432 0438 043B 043E 0441 044C, full
    stop, space, U+0423 0440 0430, exclamation mark;
  \<^item> \<open>reviewing\<close>: U+0420 0430 0431 043E 0442 0430, space, U+0432 0437 044F 0442 0430, space,
    U+043D 0430, space, U+043F 0440 043E 0432 0435 0440 043A 0443, space, U+0440 0435 0432
    044C 044E 0435 0440 043E 043C, full stop;
  \<^item> \<open>rejected\<close>: U+0420 0430 0431 043E 0442 0430, space, U+043F 0440 043E 0432 0435 0440
    0435 043D 0430, colon, space, U+0443, space, U+0440 0435 0432 044C 044E 0435 0440 0430,
    space, U+0435 0441 0442 044C, space, U+0437 0430 043C 0435 0447 0430 043D 0438 044F,
    full stop.
\<close>

definition verdict_approved :: string where
  "verdict_approved =
     [CHR 0xD0, CHR 0xA0, CHR 0xD0, CHR 0xB0, CHR 0xD0, CHR 0xB1, CHR 0xD0, CHR 0xBE,
      CHR 0xD1, CHR 0x82, CHR 0xD0, CHR 0xB0, CHR 0x20, CHR 0xD0, CHR 0xBF, CHR 0xD1,
      CHR 0x80, CHR 0xD0, CHR 0xBE, CHR 0xD0, CHR 0xB2, CHR 0xD0, CHR 0xB5, CHR 0xD1,
      CHR 0x80, CHR 0xD0, CHR 0xB5, CHR 0xD0, CHR 0xBD, CHR 0xD0, CHR 0xB0, CHR 0x3A,
      CHR 0x20, CHR 0xD1, CHR 0x80, CHR 0xD0, CHR 0xB5, CHR 0xD0, CHR 0xB2, CHR 0xD1,
      CHR 0x8C, CHR 0xD1, CHR 0x8E, CHR 0xD0, CHR 0xB5, CHR 0xD1, CHR 0x80, CHR 0xD1,
      CHR 0x83, CHR 0x20, CHR 0xD0, CHR 0xB2, CHR 0xD1, CHR 0x81, CHR 0xD1, CHR 0x91,
      CHR 0x20, CHR 0xD0, CHR 0xBF, CHR 0xD0, CHR 0xBE, CHR 0xD0, CHR 0xBD, CHR 0xD1,
      CHR 0x80, CHR 0xD0, CHR 0xB0, CHR 0xD0, CHR 0xB2, CHR 0xD0, CHR 0xB8, CHR 0xD0,
      CHR 0xBB, CHR 0xD0, CHR 0xBE, CHR 0xD1, CHR 0x81, CHR 0xD1, CHR 0x8C, CHR 0x2E,
      CHR 0x20, CHR 0xD0, CHR 0xA3, CHR 0xD1, CHR 0x80, CHR 0xD0, CHR 0xB0, CHR 0x21]"

definition verdict_reviewing :: string where
  "verdict_reviewing =
     [CHR 0xD0, CHR 0xA0, CHR 0xD0, CHR 0xB0, CHR 0xD0, CHR 0xB1, CHR 0xD0, CHR 0xBE,
      CHR 0xD1, CHR 0x82, CHR 0xD0, CHR 0xB0, CHR 0x20, CHR 0xD0, CHR 0xB2, CHR 0xD0,
      CHR 0xB7, CHR 0xD1, CHR 0x8F, CHR 0xD1, CHR 0x82, CHR 0xD0, CHR 0xB0, CHR 0x20,
      CHR 0xD0, CHR 0xBD, CHR 0xD0, CHR 0xB0, CHR 0x20, CHR 0xD0, CHR 0xBF, CHR 0xD1,
      CHR 0x80, CHR 0xD0, CHR 0xBE, CHR 0xD0, CHR 0xB2, CHR 0xD0, CHR 0xB5, CHR 0xD1,
      CHR 0x80, CHR 0xD0, CHR 0xBA, CHR 0xD1, CHR 0x83, CHR 0x20, CHR 0xD1, CHR 0x80,
      CHR 0xD0, CHR 0xB5, CHR 0xD0, CHR 0xB2, CHR 0xD1, CHR 0x8C, CHR 0xD1, CHR 0x8E,
      CHR 0xD0, CHR 0xB5, CHR 0xD1, CHR 0x80, CHR 0xD0, CHR 0xBE, CHR 0xD0, CHR 0xBC,
      CHR 0x2E]"

definition verdict_rejected :: string where
  "verdict_rejected =
     [CHR 0xD0, CHR 0xA0, CHR 0xD0, CHR 0xB0, CHR 0xD0, CHR 0xB1, CHR 0xD0, CHR 0xBE,
      CHR 0xD1, CHR 0x82, CHR 0xD0, CHR 0xB0, CHR 0x20, CHR 0xD0, CHR 0xBF, CHR 0xD1,
      CHR 0x80, CHR 0xD0, CHR 0xBE, CHR 0xD0, CHR 0xB2, CHR 0xD0, CHR 0xB5, CHR 0xD1,
      CHR 0x80, CHR 0xD0, CHR 0xB5, CHR 0xD0, CHR 0xBD, CHR 0xD0, CHR 0xB0, CHR 0x3A,
      CHR 0x20, CHR 0xD1, CHR 0x83, CHR 0x20, CHR 0xD1, CHR 0x80, CHR 0xD0, CHR 0xB5,
      CHR 0xD0, CHR 0xB2, CHR 0xD1, CHR 0x8C, CHR 0xD1, CHR 0x8E, CHR 0xD0, CHR 0xB5,
      CHR 0xD1, CHR 0x80, CHR 0xD0, CHR 0xB0, CHR 0x20, CHR 0xD0, CHR 0xB5, CHR 0xD1,
      CHR 0x81, CHR 0xD1, CHR 0x82, CHR 0xD1, CHR 0x8C, CHR 0x20, CHR 0xD0, CHR 0xB7,
      CHR 0xD0, CHR 0xB0, CHR 0xD0, CHR 0xBC, CHR 0xD0, CHR 0xB5, CHR 0xD1, CHR 0x87,
      CHR 0xD0, CHR 0xB0, CHR 0xD0, CHR 0xBD, CHR 0xD0, CHR 0xB8, CHR 0xD1, CHR 0x8F,
      CHR 0x2E]"

definition HOMEWORK_VERDICTS :: "(string \<times> string) list" where
  "HOMEWORK_VERDICTS =
     [(''approved'', verdict_approved),
      (''reviewing'', verdict_reviewing),
      (''rejected'', verdict_rejected)]"

text \<open>
  The literal that opens the status message: U+0418 0437 043C 0435 043D 0438 043B 0441 044F,
  space, U+0441 0442 0430 0442 0443 0441, space, U+043F 0440 043E 0432 0435 0440 043A 0438,
  space, U+0440 0430 0431 043E 0442 044B, space.
\<close>

definition status_changed_prefix :: string where
  "status_changed_prefix =
     [CHR 0xD0, CHR 0x98, CHR 0xD0, CHR 0xB7, CHR 0xD0, CHR 0xBC, CHR 0xD0, CHR 0xB5,
      CHR 0xD0, CHR 0xBD, CHR 0xD0, CHR 0xB8, CHR 0xD0, CHR 0xBB, CHR 0xD1, CHR 0x81,
      CHR 0xD1, CHR 0x8F, CHR 0x20, CHR 0xD1, CHR 0x81, CHR 0xD1, CHR 0x82, CHR 0xD0,
      CHR 0xB0, CHR 0xD1, CHR 0x82, CHR 0xD1, CHR 0x83, CHR 0xD1, CHR 0x81, CHR 0x20,
      CHR 0xD0, CHR 0xBF, CHR 0xD1, CHR 0x80, CHR 0xD0, CHR 0xBE, CHR 0xD0, CHR 0xB2,
      CHR 0xD0, CHR 0xB5, CHR 0xD1, CHR 0x80, CHR 0xD0, CHR 0xBA, CHR 0xD0, CHR 0xB8,
      CHR 0x20, CHR 0xD1, CHR 0x80, CHR 0xD0, CHR 0xB0, CHR 0xD0, CHR 0xB1, CHR 0xD0,
      CHR 0xBE, CHR 0xD1, CHR 0x82, CHR 0xD1, CHR 0x8B, CHR 0x20]"

text \<open>
  The literal that opens a diagnostic message: U+0421 0431 043E 0439, space, U+0432, space,
  U+0440 0430 0431 043E 0442 0435, space, U+043F 0440 043E 0433 0440 0430 043C 043C 044B,
  colon, space.
\<close>

definition failure_prefix :: string where
  "failure_prefix =
     [CHR 0xD0, CHR 0xA1, CHR 0xD0, CHR 0xB1, CHR 0xD0, CHR 0xBE, CHR 0xD0, CHR 0xB9,
      CHR 0x20, CHR 0xD0, CHR 0xB2, CHR 0x20, CHR 0xD1, CHR 0x80, CHR 0xD0, CHR 0xB0,
      CHR 0xD0, CHR 0xB1, CHR 0xD0, CHR 0xBE, CHR 0xD1, CHR 0x82, CHR 0xD0, CHR 0xB5,
      CHR 0x20, CHR 0xD0, CHR 0xBF, CHR 0xD1, CHR 0x80, CHR 0xD0, CHR 0xBE, CHR 0xD0,
      CHR 0xB3, CHR 0xD1, CHR 0x80, CHR 0xD0, CHR 0xB0, CHR 0xD0, CHR 0xBC, CHR 0xD0,
      CHR 0xBC, CHR 0xD1, CHR 0x8B, CHR 0x3A, CHR 0x20]"

section \<open>check_response\<close>

definition check_response :: "json \<Rightarrow> exn + json list" where
  \<open>check_response response =
     (case response of
        JDict d \<Rightarrow>
          (case map_of d ''homeworks'' of
             None \<Rightarrow> Inl (KeyError ''The "homework" key not found'')
           | Some hw \<Rightarrow>
               (case hw of
                  JList homeworks \<Rightarrow>
                    (case map_of d ''current_date'' of
                       None \<Rightarrow> Inl (KeyError ''The "current_date" key not found'')
                     | Some cd \<Rightarrow>
                         (case cd of
                            JNull \<Rightarrow> Inl (ValueError ''The "current_date" value not found'')
                          | _ \<Rightarrow>
                              if \<not> isinstance_int cd
                              then Inl (TypeError ''The data must be of the int type'')
                              else Inr homeworks))
                | _ \<Rightarrow> Inl (TypeError ''The data must be of the list type'')))
      | _ \<Rightarrow> Inl (TypeError ''The data must be of the dict type''))\<close>

section \<open>parse_status\<close>

text \<open>
  \<open>x not in HOMEWORK_VERDICTS\<close> hashes \<open>x\<close>: a list or a dict is unhashable and the test
  itself raises. The keys are strings, so no other kind of value is found.
\<close>

definition verdict_of :: "json \<Rightarrow> exn + string option" where
  "verdict_of st =
     (case st of
        JStr s \<Rightarrow> Inr (map_of HOMEWORK_VERDICTS s)
      | JList _ \<Rightarrow> Inl (TypeError (''unhashable type: '' @ [CHR 0x27] @ ''list'' @ [CHR 0x27]))
      | JDict _ \<Rightarrow> Inl (TypeError (''unhashable type: '' @ [CHR 0x27] @ ''dict'' @ [CHR 0x27]))
      | _ \<Rightarrow> Inr None)"

definition parse_status :: "(json \<Rightarrow> string) \<Rightarrow> json \<Rightarrow> exn + string" where
  \<open>parse_status fmt homework =
     (case py_in ''homework_name'' homework of
        Inl e \<Rightarrow> Inl e
      | Inr has_name \<Rightarrow>
          if \<not> has_name then Inl (KeyError ''The "homework_name" is missing'')
          else
            (case py_in ''status'' homework of
               Inl e \<Rightarrow> Inl e
             | Inr has_status \<Rightarrow>
                 if \<not> has_status then Inl (KeyError ''The "status" is missing'')
                 else
                   (case py_get homework ''status'' of
                      Inl e \<Rightarrow> Inl e
                    | Inr st \<Rightarrow>
                        (case verdict_of st of
                           Inl e \<Rightarrow> Inl e
                         | Inr None \<Rightarrow> Inl (ValueError ''Status unknown or missing'')
                         | Inr (Some verdict) \<Rightarrow>
                             (case py_get homework ''homework_name'' of
                                Inl e \<Rightarrow> Inl e
                              | Inr homework_name \<Rightarrow>
                                  Inr (status_changed_prefix @ ''"''
                                       @ format_value fmt homework_name @ ''". ''
                                       @ verdict))))))\<close>

section \<open>The outside world\<close>

text \<open>
  What \<open>requests.get\<close> followed by \<open>response.json()\<close> does for a given \<open>from_date\<close>: the
  transport raises a \<open>RequestException\<close> (with its text), or a response arrives with a
  status code and a body that decodes to a JSON value or raises.

  What \<open>bot.send_message\<close> does for a given text: the message is delivered, the bot API
  rejects it with \<open>BadRequest\<close> (with its text), or another exception is raised.

  The endpoint, the headers and the chat are constants of the module, the same in every
  call, and are not recorded. Only subclasses of \<open>Exception\<close> are modelled.
\<close>

datatype http_outcome =
    RequestException string
  | Response int "exn + json"

datatype send_outcome =
    Delivered
  | BadRequest string
  | Raised exn

datatype level = DEBUG | ERROR | CRITICAL

text \<open>
  The observable effects, in order: log records, HTTP requests with the \<open>from_date\<close> they
  carry, calls of \<open>bot.send_message\<close> with the text and what became of it, and sleeps.
\<close>

datatype event =
    Log level string
  | HttpGet json
  | BotSend string send_outcome
  | Sleep nat

record poll_env =
  http :: "json \<Rightarrow> http_outcome"
  bot :: "string \<Rightarrow> send_outcome"

record config =
  PRACTICUM_TOKEN :: "string option"
  TELEGRAM_TOKEN :: "string option"
  TELEGRAM_CHAT_ID :: "string option"

section \<open>check_tokens, send_message, get_api_answer\<close>

definition truthy :: "string option \<Rightarrow> bool" where
  "truthy t = (case t of None \<Rightarrow> False | Some s \<Rightarrow> s \<noteq> [])"

definition check_tokens :: "config \<Rightarrow> bool" where
  "check_tokens cfg =
     (truthy (PRACTICUM_TOKEN cfg) \<and> truthy (TELEGRAM_TOKEN cfg) \<and> truthy (TELEGRAM_CHAT_ID cfg))"

definition send_message :: "(string \<Rightarrow> send_outcome) \<Rightarrow> string \<Rightarrow> (exn + bool) \<times> event list" where
  \<open>send_message bot_send message =
     (case bot_send message of
        Delivered \<Rightarrow>
          (Inr True, [BotSend message Delivered, Log DEBUG ''Bot sent message to Telegram''])
      | BadRequest error \<Rightarrow>
          (Inr True,
           [BotSend message (BadRequest error),
            Log ERROR (''Error "'' @ error @ ''" when sending a message to Telegram'')])
      | Raised e \<Rightarrow> (Inl e, [BotSend message (Raised e)]))\<close>

definition get_api_answer :: "(json \<Rightarrow> http_outcome) \<Rightarrow> json \<Rightarrow> exn + json" where
  "get_api_answer requests_get timestamp =
     (case requests_get timestamp of
        RequestException error \<Rightarrow>
          Inl (ConnectionError (''Error '' @ error @ '' occurred when ''
                                @ ''requesting the API endpoint: '' @ ENDPOINT))
      | Response status_code body \<Rightarrow>
          if status_code \<noteq> 200
          then Inl (ConnectionError (''Endpoint '' @ ENDPOINT @ '' unavailable. ''
                                     @ ''Status code: '' @ str_int status_code))
          else body)"

section \<open>The loop of main\<close>

text \<open>
  The loop compares messages with \<open>is not\<close>, that is by object identity. A string object is
  modelled by an identity and its text. The two strings the loop compares with
  \<open>previous_message\<close>, \<open>message\<close> and \<open>err_msg\<close>, are results of f-strings with a literal
  part, and the evaluation of such an f-string builds a new object: its identity is taken
  from the counter \<open>next_id\<close>. The literal \<open>''\<close> that \<open>previous_message\<close> starts with has
  identity \<open>0\<close>.

  \<open>timestamp\<close> is the value stored under \<open>from_date\<close>.
\<close>

type_synonym strobj = "nat \<times> string"

definition is_not :: "strobj \<Rightarrow> strobj \<Rightarrow> bool" where
  "is_not a b = (fst a \<noteq> fst b)"

record loop_state =
  timestamp :: json
  previous_message :: strobj
  next_id :: nat

text \<open>
  The body of \<open>try\<close>. The result is the state, the effects and the exception that left the
  block, if any.
\<close>

definition try_block ::
    "(json \<Rightarrow> string) \<Rightarrow> poll_env \<Rightarrow> loop_state \<Rightarrow> loop_state \<times> event list \<times> exn option" where
  "try_block fmt env s =
     (case get_api_answer (http env) (timestamp s) of
        Inl e \<Rightarrow> (s, [], Some e)
      | Inr response \<Rightarrow>
          (case check_response response of
             Inl e \<Rightarrow> (s, [], Some e)
           | Inr homeworks \<Rightarrow>
               (case homeworks of
                  [] \<Rightarrow> (s, [Log DEBUG ''Status not updated''], None)
                | homework # _ \<Rightarrow>
                    (case parse_status fmt homework of
                       Inl e \<Rightarrow> (s, [], Some e)
                     | Inr text \<Rightarrow>
                         (let message = (next_id s, text);
                              s1 = s\<lparr>next_id := Suc (next_id s)\<rparr>
                          in if is_not message (previous_message s1) then
                               (case send_message (bot env) text of
                                  (Inl e, evs) \<Rightarrow> (s1, evs, Some e)
                                | (Inr sent, evs) \<Rightarrow>
                                    if sent then
                                      (case py_get response ''current_date'' of
                                         Inl e \<Rightarrow> (s1\<lparr>previous_message := message\<rparr>, evs, Some e)
                                       | Inr cd \<Rightarrow>
                                           (s1\<lparr>previous_message := message, timestamp := cd\<rparr>,
                                            evs, None))
                                    else (s1, evs, None))
                             else (s1, [], None))))))"

text \<open>
  The handler \<open>except Exception as error\<close>. An exception raised by \<open>send_message\<close> here is
  not inside any \<open>try\<close>: it leaves the handler.
\<close>

definition except_block :: "poll_env \<Rightarrow> loop_state \<Rightarrow> exn \<Rightarrow> loop_state \<times> event list \<times> exn option" where
  "except_block env s error =
     (let text = failure_prefix @ str_exn error;
          err_msg = (next_id s, text);
          s1 = s\<lparr>next_id := Suc (next_id s)\<rparr>
      in if is_not err_msg (previous_message s1) then
           (case send_message (bot env) text of
              (Inl e, evs) \<Rightarrow> (s1, Log ERROR text # evs, Some e)
            | (Inr sent, evs) \<Rightarrow>
                (if sent then s1\<lparr>previous_message := err_msg\<rparr> else s1,
                 Log ERROR text # evs, None))
         else (s1, [Log ERROR text], None))"

text \<open>
  One pass of \<open>while True\<close>: the request, the \<open>try\<close> body, the handler when the body raised,
  and the sleep of \<open>finally\<close>. The last component is the exception that leaves the loop,
  and with it \<open>main\<close>, after the sleep.
\<close>

definition iteration ::
    "(json \<Rightarrow> string) \<Rightarrow> poll_env \<Rightarrow> loop_state \<Rightarrow> loop_state \<times> event list \<times> exn option" where
  "iteration fmt env s =
     (case try_block fmt env s of
        (s1, evs, None) \<Rightarrow> (s1, HttpGet (timestamp s) # evs @ [Sleep RETRY_PERIOD], None)
      | (s1, evs, Some error) \<Rightarrow>
          (case except_block env s1 error of
             (s2, evs2, escaped) \<Rightarrow>
               (s2, HttpGet (timestamp s) # evs @ evs2 @ [Sleep RETRY_PERIOD], escaped)))"

text \<open>
  The loop never ends by itself. \<open>run\<close> follows it through a finite list of polls, one
  \<open>poll_env\<close> for each pass, and stops early when an exception leaves the loop.
\<close>

fun run ::
    "(json \<Rightarrow> string) \<Rightarrow> loop_state \<Rightarrow> poll_env list \<Rightarrow> loop_state \<times> event list \<times> exn option" where
  "run fmt s [] = (s, [], None)"
| "run fmt s (env # envs) =
     (case iteration fmt env s of
        (s1, evs, Some e) \<Rightarrow> (s1, evs, Some e)
      | (s1, evs, None) \<Rightarrow>
          (case run fmt s1 envs of (s2, evs2, escaped) \<Rightarrow> (s2, evs @ evs2, escaped)))"

definition initial_state :: "int \<Rightarrow> loop_state" where
  "initial_state now = \<lparr>timestamp = JInt now, previous_message = (0, []), next_id = 1\<rparr>"

text \<open>
  \<open>main\<close>: when \<open>check_tokens\<close> fails it logs and evaluates \<open>SystemExit()\<close>, which builds an
  exception object and drops it: nothing is raised. Then the bot is constructed
  (\<open>bot_error\<close> is the exception the library's constructor raises for the token, if any),
  the clock is read and the loop starts.
\<close>

definition main ::
    "(json \<Rightarrow> string) \<Rightarrow> exn option \<Rightarrow> int \<Rightarrow> config \<Rightarrow> poll_env list \<Rightarrow> event list \<times> exn option" where
  "main fmt bot_error now cfg envs =
     (let startup =
            (if \<not> check_tokens cfg
             then [Log CRITICAL ''Required environment variables are missing'']
             else [])
      in case bot_error of
           Some e \<Rightarrow> (startup, Some e)
         | None \<Rightarrow>
             (case run fmt (initial_state now) envs of
                (s, evs, escaped) \<Rightarrow> (startup @ evs, escaped)))"

text \<open>Every string object alive in the state is older than the next one to be built.\<close>

definition fresh_ids :: "loop_state \<Rightarrow> bool" where
  "fresh_ids s = (fst (previous_message s) < next_id s)"

subsection \<open>Concrete worlds\<close>

text \<open>
  Worlds for running the loop on concrete inputs: an endpoint that answers every request
  with status 200 and a given body, an endpoint that cannot be reached, an endpoint that
  refuses the token, and a bot API that delivers, rejects or cannot be reached.
\<close>

definition replying :: "json \<Rightarrow> json \<Rightarrow> http_outcome" where
  "replying body from_date = Response 200 (Inr body)"

definition unreachable :: "json \<Rightarrow> http_outcome" where
  "unreachable from_date = RequestException ''Connection refused''"

definition unauthorized :: "json \<Rightarrow> http_outcome" where
  "unauthorized from_date = Response 401 (Inr (JDict [(''code'', JStr ''not_authenticated'')]))"

definition delivering :: "string \<Rightarrow> send_outcome" where
  "delivering message = Delivered"

definition rejecting :: "string \<Rightarrow> send_outcome" where
  "rejecting message = BadRequest ''Chat not found''"

definition timing_out :: "string \<Rightarrow> send_outcome" where
  "timing_out message = Raised (OtherError ''Timed out'')"

text \<open>
  The concrete runs need a value for the parameter \<open>fmt\<close>. \<open>scalar_text\<close> is the
  interpreter's text of \<open>None\<close>, of the booleans and of the integers; it is no model of
  the text of a float, a list or a dict, to which it gives the empty text. Every theorem on
  \<open>parse_status\<close> and on the loop holds for all \<open>fmt\<close>, and no concrete run below formats a
  float, a list or a dict.
\<close>

fun scalar_text :: "json \<Rightarrow> string" where
  "scalar_text JNull = ''None''"
| "scalar_text (JBool b) = (if b then ''True'' else ''False'')"
| "scalar_text (JInt i) = str_int i"
| "scalar_text (JStr s) = s"
| "scalar_text _ = []"

text \<open>The responses of the scenarios: one approved homework, no homework, no \<open>homeworks\<close> key.\<close>

definition approved_response :: json where
  "approved_response =
     JDict [(''homeworks'', JList [JDict [(''homework_name'', JStr ''hw1''),
                                         (''status'', JStr ''approved'')]]),
            (''current_date'', JInt 1000)]"

definition empty_response :: json where
  "empty_response = JDict [(''homeworks'', JList []), (''current_date'', JInt 1000)]"

definition keyless_response :: json where
  "keyless_response = JDict [(''current_date'', JInt 1000)]"

section \<open>The validator\<close>




section \<open>The status extractor\<close>

text \<open>
  C5. For every homework record that has the key \<open>homework_name\<close> and whose \<open>status\<close> is
  one of the three keys of the verdict table, \<open>parse_status\<close> returns the opening literal
  (U+0418 0437 043C 0435 043D 0438 043B 0441 044F, space, U+0441 0442 0430 0442 0443 0441,
  space, U+043F 0440 043E 0432 0435 0440 043A 0438, space, U+0440 0430 0431 043E 0442 044B,
  space), the name between double quotes, a full stop, a space and the verdict text of
  the status. The name is inserted as it is when it is a \<open>str\<close>, and as the interpreter
  formats it otherwise. For the record with name \<open>hw1\<close> and status \<open>approved\<close> the result
  is the opening literal, \<open>"hw1". \<close> and the verdict text of \<open>approved\<close>. All texts are
  written out in bytes.
\<close>

theorem parse_status_message:
  \<open>(map_of d ''homework_name'' = Some name \<and> map_of d ''status'' = Some (JStr st)
      \<and> st \<in> {''approved'', ''reviewing'', ''rejected''} \<longrightarrow>
      parse_status fmt (JDict d)
        = Inr ([CHR 0xD0, CHR 0x98, CHR 0xD0, CHR 0xB7, CHR 0xD0, CHR 0xBC, CHR 0xD0, CHR 0xB5,
               CHR 0xD0, CHR 0xBD, CHR 0xD0, CHR 0xB8, CHR 0xD0, CHR 0xBB, CHR 0xD1, CHR 0x81,
               CHR 0xD1, CHR 0x8F, CHR 0x20, CHR 0xD1, CHR 0x81, CHR 0xD1, CHR 0x82, CHR 0xD0,
               CHR 0xB0, CHR 0xD1, CHR 0x82, CHR 0xD1, CHR 0x83, CHR 0xD1, CHR 0x81, CHR 0x20,
               CHR 0xD0, CHR 0xBF, CHR 0xD1, CHR 0x80, CHR 0xD0, CHR 0xBE, CHR 0xD0, CHR 0xB2,
               CHR 0xD0, CHR 0xB5, CHR 0xD1, CHR 0x80, CHR 0xD0, CHR 0xBA, CHR 0xD0, CHR 0xB8,
               CHR 0x20, CHR 0xD1, CHR 0x80, CHR 0xD0, CHR 0xB0, CHR 0xD0, CHR 0xB1, CHR 0xD0,
               CHR 0xBE, CHR 0xD1, CHR 0x82, CHR 0xD1, CHR 0x8B, CHR 0x20]
               @ ''"'' @ (case name of JStr n \<Rightarrow> n | _ \<Rightarrow> fmt name) @ ''". ''
               @ (if st = ''approved'' then
                    [CHR 0xD0, CHR 0xA0, CHR 0xD0, CHR 0xB0, CHR 0xD0, CHR 0xB1, CHR 0xD0, CHR 0xBE,
                     CHR 0xD1, CHR 0x82, CHR 0xD0, CHR 0xB0, CHR 0x20, CHR 0xD0, CHR 0xBF, CHR 0xD1,
                     CHR 0x80, CHR 0xD0, CHR 0xBE, CHR 0xD0, CHR 0xB2, CHR 0xD0, CHR 0xB5, CHR 0xD1,
                     CHR 0x80, CHR 0xD0, CHR 0xB5, CHR 0xD0, CHR 0xBD, CHR 0xD0, CHR 0xB0, CHR 0x3A,
                     CHR 0x20, CHR 0xD1, CHR 0x80, CHR 0xD0, CHR 0xB5, CHR 0xD0, CHR 0xB2, CHR 0xD1,
                     CHR 0x8C, CHR 0xD1, CHR 0x8E, CHR 0xD0, CHR 0xB5, CHR 0xD1, CHR 0x80, CHR 0xD1,
                     CHR 0x83, CHR 0x20, CHR 0xD0, CHR 0xB2, CHR 0xD1, CHR 0x81, CHR 0xD1, CHR 0x91,
                     CHR 0x20, CHR 0xD0, CHR 0xBF, CHR 0xD0, CHR 0xBE, CHR 0xD0, CHR 0xBD, CHR 0xD1,
                     CHR 0x80, CHR 0xD0, CHR 0xB0, CHR 0xD0, CHR 0xB2, CHR 0xD0, CHR 0xB8, CHR 0xD0,
                     CHR 0xBB, CHR 0xD0, CHR 0xBE, CHR 0xD1, CHR 0x81, CHR 0xD1, CHR 0x8C, CHR 0x2E,
                     CHR 0x20, CHR 0xD0, CHR 0xA3, CHR 0xD1, CHR 0x80, CHR 0xD0, CHR 0xB0, CHR 0x21]
                  else if st = ''reviewing'' then
                    [CHR 0xD0, CHR 0xA0, CHR 0xD0, CHR 0xB0, CHR 0xD0, CHR 0xB1, CHR 0xD0, CHR 0xBE,
                     CHR 0xD1, CHR 0x82, CHR 0xD0, CHR 0xB0, CHR 0x20, CHR 0xD0, CHR 0xB2, CHR 0xD0,
                     CHR 0xB7, CHR 0xD1, CHR 0x8F, CHR 0xD1, CHR 0x82, CHR 0xD0, CHR 0xB0, CHR 0x20,
                     CHR 0xD0, CHR 0xBD, CHR 0xD0, CHR 0xB0, CHR 0x20, CHR 0xD0, CHR 0xBF, CHR 0xD1,
                     CHR 0x80, CHR 0xD0, CHR 0xBE, CHR 0xD0, CHR 0xB2, CHR 0xD0, CHR 0xB5, CHR 0xD1,
                     CHR 0x80, CHR 0xD0, CHR 0xBA, CHR 0xD1, CHR 0x83, CHR 0x20, CHR 0xD1, CHR 0x80,
                     CHR 0xD0, CHR 0xB5, CHR 0xD0, CHR 0xB2, CHR 0xD1, CHR 0x8C, CHR 0xD1, CHR 0x8E,
                     CHR 0xD0, CHR 0xB5, CHR 0xD1, CHR 0x80, CHR 0xD0, CHR 0xBE, CHR 0xD0, CHR 0xBC,
                     CHR 0x2E]
                  else
                    [CHR 0xD0, CHR 0xA0, CHR 0xD0, CHR 0xB0, CHR 0xD0, CHR 0xB1, CHR 0xD0, CHR 0xBE,
                     CHR 0xD1, CHR 0x82, CHR 0xD0, CHR 0xB0, CHR 0x20, CHR 0xD0, CHR 0xBF, CHR 0xD1,
                     CHR 0x80, CHR 0xD0, CHR 0xBE, CHR 0xD0, CHR 0xB2, CHR 0xD0, CHR 0xB5, CHR 0xD1,
                     CHR 0x80, CHR 0xD0, CHR 0xB5, CHR 0xD0, CHR 0xBD, CHR 0xD0, CHR 0xB0, CHR 0x3A,
                     CHR 0x20, CHR 0xD1, CHR 0x83, CHR 0x20, CHR 0xD1, CHR 0x80, CHR 0xD0, CHR 0xB5,
                     CHR 0xD0, CHR 0xB2, CHR 0xD1, CHR 0x8C, CHR 0xD1, CHR 0x8E, CHR 0xD0, CHR 0xB5,
                     CHR 0xD1, CHR 0x80, CHR 0xD0, CHR 0xB0, CHR 0x20, CHR 0xD0, CHR 0xB5, CHR 0xD1,
                     CHR 0x81, CHR 0xD1, CHR 0x82, CHR 0xD1, CHR 0x8C, CHR 0x20, CHR 0xD0, CHR 0xB7,
                     CHR 0xD0, CHR 0xB0, CHR 0xD0, CHR 0xBC, CHR 0xD0, CHR 0xB5, CHR 0xD1, CHR 0x87,
                     CHR 0xD0, CHR 0xB0, CHR 0xD0, CHR 0xBD, CHR 0xD0, CHR 0xB8, CHR 0xD1, CHR 0x8F,
                     CHR 0x2E])))
   \<and> parse_status fmt (JDict [(''homework_name'', JStr ''hw1''), (''status'', JStr ''approved'')])
        = Inr ([CHR 0xD0, CHR 0x98, CHR 0xD0, CHR 0xB7, CHR 0xD0, CHR 0xBC, CHR 0xD0, CHR 0xB5,
               CHR 0xD0, CHR 0xBD, CHR 0xD0, CHR 0xB8, CHR 0xD0, CHR 0xBB, CHR 0xD1, CHR 0x81,
               CHR 0xD1, CHR 0x8F, CHR 0x20, CHR 0xD1, CHR 0x81, CHR 0xD1, CHR 0x82, CHR 0xD0,
               CHR 0xB0, CHR 0xD1, CHR 0x82, CHR 0xD1, CHR 0x83, CHR 0xD1, CHR 0x81, CHR 0x20,
               CHR 0xD0, CHR 0xBF, CHR 0xD1, CHR 0x80, CHR 0xD0, CHR 0xBE, CHR 0xD0, CHR 0xB2,
               CHR 0xD0, CHR 0xB5, CHR 0xD1, CHR 0x80, CHR 0xD0, CHR 0xBA, CHR 0xD0, CHR 0xB8,
               CHR 0x20, CHR 0xD1, CHR 0x80, CHR 0xD0, CHR 0xB0, CHR 0xD0, CHR 0xB1, CHR 0xD0,
               CHR 0xBE, CHR 0xD1, CHR 0x82, CHR 0xD1, CHR 0x8B, CHR 0x20]
               @ ''"hw1". ''
               @ [CHR 0xD0, CHR 0xA0, CHR 0xD0, CHR 0xB0, CHR 0xD0, CHR 0xB1, CHR 0xD0, CHR 0xBE,
                  CHR 0xD1, CHR 0x82, CHR 0xD0, CHR 0xB0, CHR 0x20, CHR 0xD0, CHR 0xBF, CHR 0xD1,
                  CHR 0x80, CHR 0xD0, CHR 0xBE, CHR 0xD0, CHR 0xB2, CHR 0xD0, CHR 0xB5, CHR 0xD1,
                  CHR 0x80, CHR 0xD0, CHR 0xB5, CHR 0xD0, CHR 0xBD, CHR 0xD0, CHR 0xB0, CHR 0x3A,
                  CHR 0x20, CHR 0xD1, CHR 0x80, CHR 0xD0, CHR 0xB5, CHR 0xD0, CHR 0xB2, CHR 0xD1,
                  CHR 0x8C, CHR 0xD1, CHR 0x8E, CHR 0xD0, CHR 0xB5, CHR 0xD1, CHR 0x80, CHR 0xD1,
                  CHR 0x83, CHR 0x20, CHR 0xD0, CHR 0xB2, CHR 0xD1, CHR 0x81, CHR 0xD1, CHR 0x91,
                  CHR 0x20, CHR 0xD0, CHR 0xBF, CHR 0xD0, CHR 0xBE, CHR 0xD0, CHR 0xBD, CHR 0xD1,
                  CHR 0x80, CHR 0xD0, CHR 0xB0, CHR 0xD0, CHR 0xB2, CHR 0xD0, CHR 0xB8, CHR 0xD0,
                  CHR 0xBB, CHR 0xD0, CHR 0xBE, CHR 0xD1, CHR 0x81, CHR 0xD1, CHR 0x8C, CHR 0x2E,
                  CHR 0x20, CHR 0xD0, CHR 0xA3, CHR 0xD1, CHR 0x80, CHR 0xD0, CHR 0xB0, CHR 0x21])\<close>
proof -
  have general: \<open>parse_status fmt (JDict d)
      = Inr (status_changed_prefix @ ''"'' @ (case name of JStr n \<Rightarrow> n | _ \<Rightarrow> fmt name) @ ''". ''
             @ (if st = ''approved'' then verdict_approved
                else if st = ''reviewing'' then verdict_reviewing
                else verdict_rejected))\<close>
    if "map_of d ''homework_name'' = Some name \<and> map_of d ''status'' = Some (JStr st)
      \<and> st \<in> {''approved'', ''reviewing'', ''rejected''}"
    using that
    by (auto simp: parse_status_def py_in_def py_get_def verdict_of_def format_value_def
        HOMEWORK_VERDICTS_def split: json.splits)
  have hw1: \<open>parse_status fmt
      (JDict [(''homework_name'', JStr ''hw1''), (''status'', JStr ''approved'')])
      = Inr (status_changed_prefix @ ''"hw1". '' @ verdict_approved)\<close>
    by (simp add: parse_status_def py_in_def py_get_def verdict_of_def format_value_def
        HOMEWORK_VERDICTS_def)
  from general hw1 show ?thesis
    unfolding status_changed_prefix_def verdict_approved_def verdict_reviewing_def
      verdict_rejected_def
    by blast
qed

theorem parse_status_message_witness:
  \<open>parse_status scalar_text
      (JDict [(''status'', JStr ''rejected''), (''homework_name'', JInt 7), (''id'', JInt 1)])
     = Inr ([CHR 0xD0, CHR 0x98, CHR 0xD0, CHR 0xB7, CHR 0xD0, CHR 0xBC, CHR 0xD0, CHR 0xB5,
            CHR 0xD0, CHR 0xBD, CHR 0xD0, CHR 0xB8, CHR 0xD0, CHR 0xBB, CHR 0xD1, CHR 0x81,
            CHR 0xD1, CHR 0x8F, CHR 0x20, CHR 0xD1, CHR 0x81, CHR 0xD1, CHR 0x82, CHR 0xD0,
            CHR 0xB0, CHR 0xD1, CHR 0x82, CHR 0xD1, CHR 0x83, CHR 0xD1, CHR 0x81, CHR 0x20,
            CHR 0xD0, CHR 0xBF, CHR 0xD1, CHR 0x80, CHR 0xD0, CHR 0xBE, CHR 0xD0, CHR 0xB2,
            CHR 0xD0, CHR 0xB5, CHR 0xD1, CHR 0x80, CHR 0xD0, CHR 0xBA, CHR 0xD0, CHR 0xB8,
            CHR 0x20, CHR 0xD1, CHR 0x80, CHR 0xD0, CHR 0xB0, CHR 0xD0, CHR 0xB1, CHR 0xD0,
            CHR 0xBE, CHR 0xD1, CHR 0x82, CHR 0xD1, CHR 0x8B, CHR 0x20]
            @ ''"7". ''
            @ [CHR 0xD0, CHR 0xA0, CHR 0xD0, CHR 0xB0, CHR 0xD0, CHR 0xB1, CHR 0xD0, CHR 0xBE,
               CHR 0xD1, CHR 0x82, CHR 0xD0, CHR 0xB0, CHR 0x20, CHR 0xD0, CHR 0xBF, CHR 0xD1,
               CHR 0x80, CHR 0xD0, CHR 0xBE, CHR 0xD0, CHR 0xB2, CHR 0xD0, CHR 0xB5, CHR 0xD1,
               CHR 0x80, CHR 0xD0, CHR 0xB5, CHR 0xD0, CHR 0xBD, CHR 0xD0, CHR 0xB0, CHR 0x3A,
               CHR 0x20, CHR 0xD1, CHR 0x83, CHR 0x20, CHR 0xD1, CHR 0x80, CHR 0xD0, CHR 0xB5,
               CHR 0xD0, CHR 0xB2, CHR 0xD1, CHR 0x8C, CHR 0xD1, CHR 0x8E, CHR 0xD0, CHR 0xB5,
               CHR 0xD1, CHR 0x80, CHR 0xD0, CHR 0xB0, CHR 0x20, CHR 0xD0, CHR 0xB5, CHR 0xD1,
               CHR 0x81, CHR 0xD1, CHR 0x82, CHR 0xD1, CHR 0x8C, CHR 0x20, CHR 0xD0, CHR 0xB7,
               CHR 0xD0, CHR 0xB0, CHR 0xD0, CHR 0xBC, CHR 0xD0, CHR 0xB5, CHR 0xD1, CHR 0x87,
               CHR 0xD0, CHR 0xB0, CHR 0xD0, CHR 0xBD, CHR 0xD0, CHR 0xB8, CHR 0xD1, CHR 0x8F,
               CHR 0x2E])\<close>
  using parse_status_message
    [where d = "[(''status'', JStr ''rejected''), (''homework_name'', JInt 7), (''id'', JInt 1)]"
      and name = "JInt 7" and st = "''rejected''" and fmt = scalar_text]
  apply (simp add: str_int_def)
  apply code_simp
  done




section \<open>The loop\<close>

subsection \<open>The paths through one pass\<close>

lemma check_response_Inr:
  assumes "check_response r = Inr hs"
  obtains d cd where "r = JDict d" "map_of d ''homeworks'' = Some (JList hs)"
    "map_of d ''current_date'' = Some cd" "isinstance_int cd"
  using assms
  by (auto simp: check_response_def split: json.splits option.splits if_splits)

lemma check_response_current_date:
  assumes "check_response r = Inr hs"
  shows "\<exists>cd. py_get r ''current_date'' = Inr cd \<and> isinstance_int cd"
  using assms by (auto elim!: check_response_Inr simp: py_get_def)

lemma except_block_returns:
  assumes "fresh_ids s" and "\<forall>x. bot env (failure_prefix @ str_exn e) \<noteq> Raised x"
  shows "except_block env s e =
    (s\<lparr>next_id := Suc (next_id s), previous_message := (next_id s, failure_prefix @ str_exn e)\<rparr>,
     Log ERROR (failure_prefix @ str_exn e) # snd (send_message (bot env) (failure_prefix @ str_exn e)),
     None)"
  using assms
  by (cases "bot env (failure_prefix @ str_exn e)")
    (simp_all add: except_block_def send_message_def Let_def is_not_def fresh_ids_def)

lemma except_block_escapes:
  assumes "fresh_ids s" and "bot env (failure_prefix @ str_exn e) = Raised x"
  shows "except_block env s e =
    (s\<lparr>next_id := Suc (next_id s)\<rparr>,
     [Log ERROR (failure_prefix @ str_exn e), BotSend (failure_prefix @ str_exn e) (Raised x)],
     Some x)"
  using assms
  by (simp add: except_block_def send_message_def Let_def is_not_def fresh_ids_def)

lemma try_block_raises:
  assumes "get_api_answer (http env) (timestamp s) = Inl e
     \<or> (\<exists>r. get_api_answer (http env) (timestamp s) = Inr r \<and> check_response r = Inl e)
     \<or> (\<exists>r h hs. get_api_answer (http env) (timestamp s) = Inr r
           \<and> check_response r = Inr (h # hs) \<and> parse_status fmt h = Inl e)"
  shows "try_block fmt env s = (s, [], Some e)"
  using assms by (auto simp: try_block_def)

lemma try_block_empty:
  assumes "get_api_answer (http env) (timestamp s) = Inr r" and "check_response r = Inr []"
  shows "try_block fmt env s = (s, [Log DEBUG ''Status not updated''], None)"
  using assms by (simp add: try_block_def)

lemma try_block_notified:
  assumes "fresh_ids s"
    and "get_api_answer (http env) (timestamp s) = Inr r"
    and "check_response r = Inr (h # hs)"
    and "parse_status fmt h = Inr msg"
    and "\<forall>x. bot env msg \<noteq> Raised x"
    and "py_get r ''current_date'' = Inr cd"
  shows "try_block fmt env s =
    (s\<lparr>next_id := Suc (next_id s), previous_message := (next_id s, msg), timestamp := cd\<rparr>,
     snd (send_message (bot env) msg), None)"
  using assms
  by (cases "bot env msg")
    (simp_all add: try_block_def send_message_def Let_def is_not_def fresh_ids_def)

lemma try_block_send_raises:
  assumes "fresh_ids s"
    and "get_api_answer (http env) (timestamp s) = Inr r"
    and "check_response r = Inr (h # hs)"
    and "parse_status fmt h = Inr msg"
    and "bot env msg = Raised x"
  shows "try_block fmt env s =
    (s\<lparr>next_id := Suc (next_id s)\<rparr>, [BotSend msg (Raised x)], Some x)"
  using assms
  by (simp add: try_block_def send_message_def Let_def is_not_def fresh_ids_def)

lemma fresh_ids_initial: "fresh_ids (initial_state now)"
  by (simp add: fresh_ids_def initial_state_def)

lemma fresh_ids_except_block:
  assumes "fresh_ids s"
  shows "fresh_ids (fst (except_block env s e))"
  using assms
  by (auto simp: except_block_def Let_def fresh_ids_def split: prod.splits sum.splits)

lemma fresh_ids_try_block:
  assumes "fresh_ids s"
  shows "fresh_ids (fst (try_block fmt env s))"
  using assms
  by (auto simp: try_block_def Let_def fresh_ids_def split: prod.splits sum.splits list.splits)

lemma fresh_ids_iteration:
  assumes "fresh_ids s"
  shows "fresh_ids (fst (iteration fmt env s))"
proof -
  obtain s1 evs r where t: "try_block fmt env s = (s1, evs, r)"
    by (cases "try_block fmt env s") auto
  with fresh_ids_try_block [OF assms, of fmt env] have f1: "fresh_ids s1" by simp
  show ?thesis
  proof (cases r)
    case None
    with t f1 show ?thesis by (simp add: iteration_def)
  next
    case (Some e)
    with t fresh_ids_except_block [OF f1, of env e] show ?thesis
      by (auto simp: iteration_def split: prod.splits)
  qed
qed

lemma fresh_ids_run:
  assumes "fresh_ids s"
  shows "fresh_ids (fst (run fmt s envs))"
  using assms
proof (induction envs arbitrary: s)
  case Nil
  then show ?case by simp
next
  case (Cons env envs)
  obtain s1 evs r where i: "iteration fmt env s = (s1, evs, r)"
    by (cases "iteration fmt env s") auto
  with fresh_ids_iteration [OF Cons.prems, of fmt env] have f1: "fresh_ids s1" by simp
  show ?case
  proof (cases r)
    case None
    with i Cons.IH [OF f1] show ?thesis by (auto split: prod.splits)
  next
    case (Some e)
    with i f1 show ?thesis by simp
  qed
qed

lemma iteration_raised:
  assumes "try_block fmt env s = (s1, evs, Some e)" and "except_block env s1 e = (s2, evs2, r)"
  shows "iteration fmt env s = (s2, HttpGet (timestamp s) # evs @ evs2 @ [Sleep RETRY_PERIOD], r)"
  using assms by (simp add: iteration_def)

lemma iteration_passed:
  assumes "try_block fmt env s = (s1, evs, None)"
  shows "iteration fmt env s = (s1, HttpGet (timestamp s) # evs @ [Sleep RETRY_PERIOD], None)"
  using assms by (simp add: iteration_def)

lemma timestamp_except_block: "timestamp (fst (except_block env s e)) = timestamp s"
  by (simp add: except_block_def Let_def split: prod.splits sum.splits)

lemma timestamp_iteration_raised:
  assumes "try_block fmt env s = (s1, evs, Some e)"
  shows "timestamp (fst (iteration fmt env s)) = timestamp s1"
  using assms timestamp_except_block [of env s1 e]
  by (auto simp: iteration_def split: prod.splits)

lemma parse_status_hw1:
  \<open>parse_status fmt (JDict [(''homework_name'', JStr ''hw1''), (''status'', JStr ''approved'')])
     = Inr (status_changed_prefix @ ''"hw1". '' @ verdict_approved)\<close>
  by (simp add: parse_status_def py_in_def py_get_def verdict_of_def format_value_def
      HOMEWORK_VERDICTS_def)

lemma py_repr_homework_key:
  \<open>py_repr ''The "homework" key not found''
     = [CHR 0x27] @ ''The "homework" key not found'' @ [CHR 0x27]\<close>
  by code_simp

lemma str_int_401: "str_int 401 = ''401''"
  by code_simp

subsection \<open>A poll without homeworks\<close>

text \<open>
  C8. When the request succeeds, the response passes \<open>check_response\<close> and its \<open>homeworks\<close>
  list is empty, the pass logs \<open>Status not updated\<close> at debug level and sleeps, and does
  nothing else: \<open>bot.send_message\<close> is not called, and the state, with \<open>previous_message\<close>
  and the cursor \<open>timestamp\<close>, is what it was.
\<close>

theorem empty_homeworks_no_action:
  assumes "get_api_answer (http env) (timestamp s) = Inr r" and "check_response r = Inr []"
  shows "iteration fmt env s =
    (s, [HttpGet (timestamp s), Log DEBUG ''Status not updated'', Sleep RETRY_PERIOD], None)"
  using iteration_passed [OF try_block_empty [OF assms]] by simp

theorem empty_homeworks_no_action_witness:
  "iteration scalar_text \<lparr>http = replying (JDict [(''current_date'', JInt 2000), (''homeworks'', JList [])]),
       bot = delivering\<rparr> (initial_state 5)
   = (initial_state 5, [HttpGet (JInt 5), Log DEBUG ''Status not updated'', Sleep 600], None)"
  using empty_homeworks_no_action
    [where env = "\<lparr>http = replying (JDict [(''current_date'', JInt 2000), (''homeworks'', JList [])]),
       bot = delivering\<rparr>" and s = "initial_state 5"
      and r = "JDict [(''current_date'', JInt 2000), (''homeworks'', JList [])]" and fmt = scalar_text]
  by (simp add: get_api_answer_def replying_def check_response_def initial_state_def RETRY_PERIOD_def)

subsection \<open>A rejected message\<close>

text \<open>
  C7. When the bot API rejects the request with \<open>BadRequest\<close>, \<open>send_message\<close> logs the
  rejection at error level and returns \<open>True\<close>; nothing is raised. So when the status message
  of a poll is rejected, \<open>previous_message\<close> becomes that message, although the only call of
  \<open>bot.send_message\<close> in the pass was rejected.
\<close>

theorem bad_request_reported_as_success:
  \<open>(bot_send message = BadRequest error \<longrightarrow>
      send_message bot_send message
        = (Inr True,
           [BotSend message (BadRequest error),
            Log ERROR (''Error "'' @ error @ ''" when sending a message to Telegram'')]))
   \<and> (fresh_ids s \<and> get_api_answer (http env) (timestamp s) = Inr r
        \<and> check_response r = Inr (h # hs) \<and> parse_status fmt h = Inr msg
        \<and> bot env msg = BadRequest error \<longrightarrow>
      previous_message (fst (iteration fmt env s)) = (next_id s, msg)
      \<and> fst (snd (iteration fmt env s))
        = [HttpGet (timestamp s), BotSend msg (BadRequest error),
           Log ERROR (''Error "'' @ error @ ''" when sending a message to Telegram''),
           Sleep RETRY_PERIOD])\<close>
proof -
  have sends: \<open>send_message bot_send message
        = (Inr True,
           [BotSend message (BadRequest error),
            Log ERROR (''Error "'' @ error @ ''" when sending a message to Telegram'')])\<close>
    if "bot_send message = BadRequest error"
    using that by (simp add: send_message_def)
  have records: \<open>previous_message (fst (iteration fmt env s)) = (next_id s, msg)
      \<and> fst (snd (iteration fmt env s))
        = [HttpGet (timestamp s), BotSend msg (BadRequest error),
           Log ERROR (''Error "'' @ error @ ''" when sending a message to Telegram''),
           Sleep RETRY_PERIOD]\<close>
    if a: "fresh_ids s \<and> get_api_answer (http env) (timestamp s) = Inr r
        \<and> check_response r = Inr (h # hs) \<and> parse_status fmt h = Inr msg
        \<and> bot env msg = BadRequest error"
  proof -
    from a obtain cd where cd: "py_get r ''current_date'' = Inr cd"
      using check_response_current_date by blast
    from a have "\<forall>x. bot env msg \<noteq> Raised x" by simp
    with a cd have "try_block fmt env s =
      (s\<lparr>next_id := Suc (next_id s), previous_message := (next_id s, msg), timestamp := cd\<rparr>,
       snd (send_message (bot env) msg), None)"
      by (intro try_block_notified) auto
    from iteration_passed [OF this] a show ?thesis
      by (simp add: send_message_def)
  qed
  from sends records show ?thesis by blast
qed

theorem bad_request_reported_as_success_witness:
  \<open>send_message rejecting ''hello''
     = (Inr True,
        [BotSend ''hello'' (BadRequest ''Chat not found''),
         Log ERROR ''Error "Chat not found" when sending a message to Telegram''])
   \<and> previous_message
        (fst (iteration scalar_text \<lparr>http = replying approved_response, bot = rejecting\<rparr> (initial_state 0)))
     = (1, status_changed_prefix @ ''"hw1". '' @ verdict_approved)
   \<and> fst (snd (iteration scalar_text \<lparr>http = replying approved_response, bot = rejecting\<rparr> (initial_state 0)))
     = [HttpGet (JInt 0),
        BotSend (status_changed_prefix @ ''"hw1". '' @ verdict_approved) (BadRequest ''Chat not found''),
        Log ERROR ''Error "Chat not found" when sending a message to Telegram'',
        Sleep 600]\<close>
  using bad_request_reported_as_success
    [where bot_send = rejecting and message = "''hello''" and error = "''Chat not found''"
      and s = "initial_state 0"
      and env = "\<lparr>http = replying approved_response, bot = rejecting\<rparr>"
      and r = approved_response
      and h = "JDict [(''homework_name'', JStr ''hw1''), (''status'', JStr ''approved'')]"
      and hs = "[]" and fmt = scalar_text
      and msg = "status_changed_prefix @ ''\"hw1\". '' @ verdict_approved"]
    fresh_ids_initial [of 0]
  by (simp add: rejecting_def get_api_answer_def replying_def approved_response_def
      check_response_def parse_status_def py_in_def py_get_def verdict_of_def
      HOMEWORK_VERDICTS_def format_value_def initial_state_def RETRY_PERIOD_def)

subsection \<open>A send that raises\<close>

text \<open>
  C10. \<open>send_message\<close> catches \<open>BadRequest\<close> only: any other exception raised by
  \<open>bot.send_message\<close> leaves \<open>send_message\<close>. When this happens to the status message of a
  poll, the exception is caught by \<open>except Exception\<close> of the same pass: the handler logs
  the diagnostic built from it and hands the diagnostic to \<open>send_message\<close>. The cursor stays,
  and \<open>previous_message\<close> is the old one or the diagnostic, never the status message.
\<close>

theorem other_send_error_reaches_handler:
  "(bot_send message = Raised x \<longrightarrow>
      send_message bot_send message = (Inl x, [BotSend message (Raised x)]))
   \<and> (fresh_ids s \<and> get_api_answer (http env) (timestamp s) = Inr r
        \<and> check_response r = Inr (h # hs) \<and> parse_status fmt h = Inr msg
        \<and> bot env msg = Raised x \<longrightarrow>
      fst (snd (iteration fmt env s))
        = [HttpGet (timestamp s), BotSend msg (Raised x), Log ERROR (failure_prefix @ str_exn x)]
          @ snd (send_message (bot env) (failure_prefix @ str_exn x)) @ [Sleep RETRY_PERIOD]
      \<and> timestamp (fst (iteration fmt env s)) = timestamp s
      \<and> previous_message (fst (iteration fmt env s))
          \<in> {previous_message s, (Suc (next_id s), failure_prefix @ str_exn x)})"
proof -
  have propagates: "send_message bot_send message = (Inl x, [BotSend message (Raised x)])"
    if "bot_send message = Raised x"
    using that by (simp add: send_message_def)
  have caught: "fst (snd (iteration fmt env s))
        = [HttpGet (timestamp s), BotSend msg (Raised x), Log ERROR (failure_prefix @ str_exn x)]
          @ snd (send_message (bot env) (failure_prefix @ str_exn x)) @ [Sleep RETRY_PERIOD]
      \<and> timestamp (fst (iteration fmt env s)) = timestamp s
      \<and> previous_message (fst (iteration fmt env s))
          \<in> {previous_message s, (Suc (next_id s), failure_prefix @ str_exn x)}"
    if a: "fresh_ids s \<and> get_api_answer (http env) (timestamp s) = Inr r
        \<and> check_response r = Inr (h # hs) \<and> parse_status fmt h = Inr msg
        \<and> bot env msg = Raised x"
  proof -
    let ?s1 = "s\<lparr>next_id := Suc (next_id s)\<rparr>"
    let ?diag = "failure_prefix @ str_exn x"
    from a have body: "try_block fmt env s = (?s1, [BotSend msg (Raised x)], Some x)"
      by (intro try_block_send_raises) auto
    from a have fresh: "fresh_ids ?s1"
      by (simp add: fresh_ids_def)
    show ?thesis
    proof (cases "\<exists>y. bot env ?diag = Raised y")
      case True
      then obtain y where y: "bot env ?diag = Raised y" ..
      from iteration_raised [OF body except_block_escapes [OF fresh y]] y
      show ?thesis by (simp add: send_message_def)
    next
      case False
      then have "\<forall>y. bot env ?diag \<noteq> Raised y" by simp
      from iteration_raised [OF body except_block_returns [OF fresh this]]
      show ?thesis by simp
    qed
  qed
  from propagates caught show ?thesis by blast
qed

theorem other_send_error_reaches_handler_witness:
  \<open>send_message timing_out ''hello''
     = (Inl (OtherError ''Timed out''), [BotSend ''hello'' (Raised (OtherError ''Timed out''))])
   \<and> fst (snd (iteration scalar_text \<lparr>http = replying approved_response, bot = timing_out\<rparr>
                  (initial_state 0)))
     = [HttpGet (JInt 0),
        BotSend (status_changed_prefix @ ''"hw1". '' @ verdict_approved)
          (Raised (OtherError ''Timed out'')),
        Log ERROR (failure_prefix @ ''Timed out''),
        BotSend (failure_prefix @ ''Timed out'') (Raised (OtherError ''Timed out'')),
        Sleep 600]
   \<and> timestamp (fst (iteration scalar_text \<lparr>http = replying approved_response, bot = timing_out\<rparr>
                        (initial_state 0)))
     = JInt 0
   \<and> previous_message (fst (iteration scalar_text
          \<lparr>http = replying approved_response, bot = timing_out\<rparr> (initial_state 0)))
     \<in> {(0, []), (2, failure_prefix @ ''Timed out'')}\<close>
  using other_send_error_reaches_handler
    [where bot_send = timing_out and message = "''hello''" and x = "OtherError ''Timed out''"
      and s = "initial_state 0"
      and env = "\<lparr>http = replying approved_response, bot = timing_out\<rparr>"
      and r = approved_response
      and h = "JDict [(''homework_name'', JStr ''hw1''), (''status'', JStr ''approved'')]"
      and hs = "[]" and fmt = scalar_text
      and msg = "status_changed_prefix @ ''\"hw1\". '' @ verdict_approved"]
    fresh_ids_initial [of 0]
  by (simp add: timing_out_def get_api_answer_def replying_def approved_response_def
      check_response_def parse_status_def py_in_def py_get_def verdict_of_def
      HOMEWORK_VERDICTS_def format_value_def initial_state_def RETRY_PERIOD_def
      send_message_def numeral_2_eq_2)

subsection \<open>The error path\<close>

text \<open>
  C9. The endpoint cannot be reached and the bot API times out. The error of the request
  is caught in the same pass, and the diagnostic, the failure literal followed by
  \<open>str(error)\<close>, is logged at error level and handed to \<open>send_message\<close>. This call stands in
  the handler, outside any \<open>try\<close>: the exception of \<open>bot.send_message\<close> leaves the handler.
  The diagnostic is not recorded, \<open>previous_message\<close> is still the initial one, and after
  the sleep the exception ends the loop: there is no next pass.
\<close>

theorem diagnostic_send_failure_ends_loop:
  "get_api_answer unreachable (JInt 0)
     = Inl (ConnectionError
         (''Error Connection refused occurred when requesting the API endpoint: '' @ ENDPOINT))
   \<and> iteration scalar_text \<lparr>http = unreachable, bot = timing_out\<rparr> (initial_state 0)
     = (\<lparr>timestamp = JInt 0, previous_message = (0, []), next_id = 2\<rparr>,
        [HttpGet (JInt 0),
         Log ERROR (failure_prefix
           @ ''Error Connection refused occurred when requesting the API endpoint: '' @ ENDPOINT),
         BotSend (failure_prefix
           @ ''Error Connection refused occurred when requesting the API endpoint: '' @ ENDPOINT)
           (Raised (OtherError ''Timed out'')),
         Sleep 600],
        Some (OtherError ''Timed out''))"
  by (simp add: iteration_def try_block_def except_block_def get_api_answer_def unreachable_def
      timing_out_def send_message_def initial_state_def is_not_def RETRY_PERIOD_def Let_def)

subsection \<open>The cursor\<close>

text \<open>
  C1, as the code has it. In a state reached by the loop, the cursor becomes the
  \<open>current_date\<close> of the response when the response passed \<open>check_response\<close>, its
  \<open>homeworks\<close> list is not empty, \<open>parse_status\<close> gave a message for the first element whose
  text differs from that of \<open>previous_message\<close>, and \<open>send_message\<close> returned for it. The
  cursor stays when the request, \<open>check_response\<close> or \<open>parse_status\<close> raised, when the
  \<open>homeworks\<close> list is empty, and when the send of the status message raised.
\<close>

theorem cursor_moves:
  assumes "fresh_ids s"
  shows "(get_api_answer (http env) (timestamp s) = Inr r \<and> check_response r = Inr (h # hs)
        \<and> parse_status fmt h = Inr msg \<and> snd (previous_message s) \<noteq> msg
        \<and> (\<forall>x. bot env msg \<noteq> Raised x) \<and> py_get r ''current_date'' = Inr cd \<longrightarrow>
      timestamp (fst (iteration fmt env s)) = cd)
   \<and> ((\<exists>e. get_api_answer (http env) (timestamp s) = Inl e)
       \<or> (\<exists>r' e. get_api_answer (http env) (timestamp s) = Inr r' \<and> check_response r' = Inl e)
       \<or> (\<exists>r'. get_api_answer (http env) (timestamp s) = Inr r' \<and> check_response r' = Inr [])
       \<or> (\<exists>r' h' hs' e. get_api_answer (http env) (timestamp s) = Inr r'
             \<and> check_response r' = Inr (h' # hs') \<and> parse_status fmt h' = Inl e)
       \<or> (\<exists>r' h' hs' msg' x. get_api_answer (http env) (timestamp s) = Inr r'
             \<and> check_response r' = Inr (h' # hs') \<and> parse_status fmt h' = Inr msg'
             \<and> bot env msg' = Raised x) \<longrightarrow>
      timestamp (fst (iteration fmt env s)) = timestamp s)"
proof -
  have moves: "timestamp (fst (iteration fmt env s)) = cd"
    if "get_api_answer (http env) (timestamp s) = Inr r \<and> check_response r = Inr (h # hs)
        \<and> parse_status fmt h = Inr msg \<and> snd (previous_message s) \<noteq> msg
        \<and> (\<forall>x. bot env msg \<noteq> Raised x) \<and> py_get r ''current_date'' = Inr cd"
  proof -
    from that assms have "try_block fmt env s =
      (s\<lparr>next_id := Suc (next_id s), previous_message := (next_id s, msg), timestamp := cd\<rparr>,
       snd (send_message (bot env) msg), None)"
      by (intro try_block_notified) auto
    from iteration_passed [OF this] show ?thesis by simp
  qed
  have raised: "timestamp (fst (iteration fmt env s)) = timestamp s"
    if "get_api_answer (http env) (timestamp s) = Inl e
     \<or> (\<exists>r. get_api_answer (http env) (timestamp s) = Inr r \<and> check_response r = Inl e)
     \<or> (\<exists>r h hs. get_api_answer (http env) (timestamp s) = Inr r
           \<and> check_response r = Inr (h # hs) \<and> parse_status fmt h = Inl e)" for e
    using timestamp_iteration_raised [OF try_block_raises [OF that]] by simp
  have empty: "timestamp (fst (iteration fmt env s)) = timestamp s"
    if "get_api_answer (http env) (timestamp s) = Inr r'" and "check_response r' = Inr []" for r'
    using iteration_passed [OF try_block_empty [OF that]] by simp
  have unsent: "timestamp (fst (iteration fmt env s)) = timestamp s"
    if "get_api_answer (http env) (timestamp s) = Inr r'" and "check_response r' = Inr (h' # hs')"
      and "parse_status fmt h' = Inr msg'" and "bot env msg' = Raised x" for r' h' hs' msg' x
    using timestamp_iteration_raised [OF try_block_send_raises [OF assms that]] by simp
  have stays: "timestamp (fst (iteration fmt env s)) = timestamp s"
    if "(\<exists>e. get_api_answer (http env) (timestamp s) = Inl e)
       \<or> (\<exists>r' e. get_api_answer (http env) (timestamp s) = Inr r' \<and> check_response r' = Inl e)
       \<or> (\<exists>r'. get_api_answer (http env) (timestamp s) = Inr r' \<and> check_response r' = Inr [])
       \<or> (\<exists>r' h' hs' e. get_api_answer (http env) (timestamp s) = Inr r'
             \<and> check_response r' = Inr (h' # hs') \<and> parse_status fmt h' = Inl e)
       \<or> (\<exists>r' h' hs' msg' x. get_api_answer (http env) (timestamp s) = Inr r'
             \<and> check_response r' = Inr (h' # hs') \<and> parse_status fmt h' = Inr msg'
             \<and> bot env msg' = Raised x)"
    using that
  proof (elim disjE exE conjE)
    fix e assume "get_api_answer (http env) (timestamp s) = Inl e"
    then show ?thesis using raised [of e] by simp
  next
    fix r' e assume "get_api_answer (http env) (timestamp s) = Inr r'" "check_response r' = Inl e"
    then show ?thesis using raised [of e] by blast
  next
    fix r' assume "get_api_answer (http env) (timestamp s) = Inr r'" "check_response r' = Inr []"
    then show ?thesis by (rule empty)
  next
    fix r' h' hs' e
    assume "get_api_answer (http env) (timestamp s) = Inr r'" "check_response r' = Inr (h' # hs')"
      "parse_status fmt h' = Inl e"
    then show ?thesis using raised [of e] by blast
  next
    fix r' h' hs' msg' x
    assume "get_api_answer (http env) (timestamp s) = Inr r'" "check_response r' = Inr (h' # hs')"
      "parse_status fmt h' = Inr msg'" "bot env msg' = Raised x"
    then show ?thesis by (rule unsent)
  qed
  from moves stays show ?thesis by blast
qed

theorem cursor_moves_witness:
  "timestamp (fst (iteration scalar_text \<lparr>http = replying approved_response, bot = delivering\<rparr>
                     (initial_state 0)))
     = JInt 1000
   \<and> timestamp (fst (iteration scalar_text \<lparr>http = replying keyless_response, bot = delivering\<rparr>
                     (initial_state 0)))
     = JInt 0"
  using cursor_moves
    [where s = "initial_state 0"
      and env = "\<lparr>http = replying approved_response, bot = delivering\<rparr>"
      and r = approved_response
      and h = "JDict [(''homework_name'', JStr ''hw1''), (''status'', JStr ''approved'')]"
      and hs = "[]" and fmt = scalar_text
      and msg = "status_changed_prefix @ ''\"hw1\". '' @ verdict_approved"
      and cd = "JInt 1000"]
    cursor_moves
    [where s = "initial_state 0"
      and env = "\<lparr>http = replying keyless_response, bot = delivering\<rparr>"
      and fmt = scalar_text]
    fresh_ids_initial [of 0]
  by (simp add: parse_status_hw1 get_api_answer_def replying_def approved_response_def
      keyless_response_def check_response_def py_get_def delivering_def initial_state_def
      status_changed_prefix_def)

text \<open>
  The response with an empty \<open>homeworks\<close> list and \<open>current_date\<close> 1000 passes
  \<open>check_response\<close>, and the cursor, 0 before the pass, is 0 after it.
\<close>

theorem empty_poll_keeps_cursor:
  "get_api_answer (replying empty_response) (JInt 0) = Inr empty_response
   \<and> check_response empty_response = Inr []
   \<and> py_get empty_response ''current_date'' = Inr (JInt 1000)
   \<and> timestamp (fst (iteration scalar_text \<lparr>http = replying empty_response, bot = delivering\<rparr>
                        (initial_state 0)))
     = JInt 0"
  by (simp add: iteration_def try_block_def get_api_answer_def replying_def empty_response_def
      check_response_def py_get_def initial_state_def)

subsection \<open>Repeated messages\<close>

text \<open>
  C2. Two polls in a row are answered with a response that has no \<open>homeworks\<close> key, and the
  bot API delivers what it is given. Both passes derive the same diagnostic text. The
  comparison \<open>err_msg is not previous_message\<close> is one of object identity, and the
  diagnostic of the second pass is a new object: \<open>bot.send_message\<close> is called in both
  passes.
\<close>

theorem identical_failure_sent_twice:
  \<open>fst (snd (run scalar_text (initial_state 0)
       [\<lparr>http = replying keyless_response, bot = delivering\<rparr>,
        \<lparr>http = replying keyless_response, bot = delivering\<rparr>]))
     = [HttpGet (JInt 0),
        Log ERROR (failure_prefix @ [CHR 0x27] @ ''The "homework" key not found'' @ [CHR 0x27]),
        BotSend (failure_prefix @ [CHR 0x27] @ ''The "homework" key not found'' @ [CHR 0x27])
          Delivered,
        Log DEBUG ''Bot sent message to Telegram'',
        Sleep 600,
        HttpGet (JInt 0),
        Log ERROR (failure_prefix @ [CHR 0x27] @ ''The "homework" key not found'' @ [CHR 0x27]),
        BotSend (failure_prefix @ [CHR 0x27] @ ''The "homework" key not found'' @ [CHR 0x27])
          Delivered,
        Log DEBUG ''Bot sent message to Telegram'',
        Sleep 600]\<close>
  by (simp add: iteration_def try_block_def except_block_def get_api_answer_def replying_def
      keyless_response_def check_response_def delivering_def send_message_def initial_state_def
      is_not_def RETRY_PERIOD_def Let_def py_repr_homework_key)

section \<open>Startup\<close>

text \<open>
  C3. With \<open>PRACTICUM_TOKEN\<close> absent and the other two values present, \<open>check_tokens\<close> fails
  and \<open>main\<close> logs at critical level; \<open>SystemExit()\<close> is not raised, and \<open>main\<close> goes on
  into the loop, whose first pass sends its request and reports the refusal.
\<close>

theorem missing_token_still_polls:
  "\<not> check_tokens \<lparr>PRACTICUM_TOKEN = None, TELEGRAM_TOKEN = Some ''123:abc'',
                     TELEGRAM_CHAT_ID = Some ''42''\<rparr>
   \<and> main scalar_text None 0
        \<lparr>PRACTICUM_TOKEN = None, TELEGRAM_TOKEN = Some ''123:abc'', TELEGRAM_CHAT_ID = Some ''42''\<rparr>
        [\<lparr>http = unauthorized, bot = delivering\<rparr>]
     = ([Log CRITICAL ''Required environment variables are missing'',
         HttpGet (JInt 0),
         Log ERROR (failure_prefix @ ''Endpoint '' @ ENDPOINT @ '' unavailable. Status code: 401''),
         BotSend (failure_prefix @ ''Endpoint '' @ ENDPOINT @ '' unavailable. Status code: 401'')
           Delivered,
         Log DEBUG ''Bot sent message to Telegram'',
         Sleep 600],
        None)"
  by (simp add: main_def check_tokens_def truthy_def iteration_def try_block_def except_block_def
      get_api_answer_def unauthorized_def delivering_def send_message_def initial_state_def
      is_not_def RETRY_PERIOD_def Let_def str_int_401)

end
